theory Spec2Isabelle
  imports Complex_Main "HOL-Library.AList"
begin

section \<open>Strings and the key normalizer\<close>

text \<open>
  A query is a JavaScript string. The model covers the strings whose code units are
  below 256: a \<^typ>\<open>char\<close> stands for the code unit of the same number. On these
  strings \<^verbatim>\<open>String.prototype.trim\<close> strips the code units 9 to 13, 32 and 160 from both
  ends, and \<^verbatim>\<open>toLowerCase\<close> adds 32 to the code units 65 to 90 and 192 to 222 (215, the
  multiplication sign, apart) and leaves every other code unit as it is.
\<close>

definition isWhiteSpace :: "char \<Rightarrow> bool" where
  "isWhiteSpace c \<longleftrightarrow>
     (let n = (of_char c :: nat) in (9 \<le> n \<and> n \<le> 13) \<or> n = 32 \<or> n = 160)"

definition trim :: "string \<Rightarrow> string" where
  "trim s = rev (dropWhile isWhiteSpace (rev (dropWhile isWhiteSpace s)))"

definition lowerChar :: "char \<Rightarrow> char" where
  "lowerChar c =
     (let n = (of_char c :: nat)
      in if (65 \<le> n \<and> n \<le> 90) \<or> (192 \<le> n \<and> n \<le> 222 \<and> n \<noteq> 215)
         then char_of (n + 32) else c)"

definition toLowerCase :: "string \<Rightarrow> string" where
  "toLowerCase s = map lowerChar s"

text \<open>\<^verbatim>\<open>normalizeInput(value) = value.trim().toLowerCase()\<close>\<close>

definition normalizeInput :: "string \<Rightarrow> string" where
  "normalizeInput v = toLowerCase (trim v)"

text \<open>JavaScript truthiness of an optional string: absent and the empty string are falsy.\<close>

fun truthy :: "string option \<Rightarrow> bool" where
  "truthy None = False"
| "truthy (Some s) = (s \<noteq> [])"


section \<open>Data model\<close>

text \<open>
  An awaited call either returns a value or throws (a rejected promise is a throw at the
  \<^verbatim>\<open>await\<close>). Every promise is taken to settle.
\<close>

datatype 'a outcome = Returns 'a | Throws

record AutocompletePrediction =
  place_id :: "string option"
  description :: string

record LatLngLiteral =
  lat :: real
  lng :: real

record PlaceGeometry =
  geometry_location :: "LatLngLiteral option"

record PlaceResult =
  formatted_address :: "string option"
  geometry :: "PlaceGeometry option"

text \<open>
  A Firestore document of the cache collection. A field is \<open>None\<close> when the document does
  not have it; \<open>formattedAddress\<close> and \<open>location\<close> can also be stored as \<^verbatim>\<open>null\<close>
  (\<open>Some None\<close>).
\<close>

record DocData =
  normalizedInput :: "string option"
  prediction :: "AutocompletePrediction option"
  rawPlace :: "PlaceResult option"
  formattedAddress :: "string option option"
  location :: "LatLngLiteral option option"
  updatedAt :: "nat option"

definition emptyDoc :: DocData where
  "emptyDoc = \<lparr>normalizedInput = None, prediction = None, rawPlace = None,
     formattedAddress = None, location = None, updatedAt = None\<rparr>"


section \<open>The persistent store\<close>

text \<open>
  The store client is a collaborator. Its state is the documents, keyed by collection
  path and document id and kept in the order a query lists them; \<open>faults\<close> scripts the
  client's failures (each call takes the next entry, \<open>True\<close> makes the call reject, an
  exhausted script means no more failures); \<open>now\<close> is the server time that
  \<^verbatim>\<open>serverTimestamp()\<close> resolves to; \<open>oplog\<close> records every call the program makes.
\<close>

datatype StoreOp =
    GetDocs string string
  | GetDoc string string
  | SetDoc string string DocData

record FirestoreDb =
  docs :: "((string \<times> string) \<times> DocData) list"
  faults :: "bool list"
  now :: nat
  oplog :: "StoreOp list"

definition nextFault :: "FirestoreDb \<Rightarrow> bool \<times> FirestoreDb" where
  "nextFault db = (case faults db of [] \<Rightarrow> (False, db) | f # fs \<Rightarrow> (f, db\<lparr>faults := fs\<rparr>))"

text \<open>
  \<^verbatim>\<open>getDocs(query(collection(fs, path), where("normalizedInput", "==", key)))\<close>:
  the matching documents of the collection, in order.
\<close>

definition getDocs :: "string \<Rightarrow> string \<Rightarrow> FirestoreDb \<Rightarrow> DocData list outcome \<times> FirestoreDb" where
  "getDocs path key db =
     (let (failed, db') = nextFault (db\<lparr>oplog := oplog db @ [GetDocs path key]\<rparr>)
      in if failed then (Throws, db')
         else (Returns (map snd (filter (\<lambda>(k, d). fst k = path \<and> normalizedInput d = Some key)
                 (docs db'))), db'))"

text \<open>\<^verbatim>\<open>getDoc(doc(collection(fs, path), id))\<close>; \<open>None\<close> is a snapshot that does not exist.\<close>

definition getDoc :: "string \<Rightarrow> string \<Rightarrow> FirestoreDb \<Rightarrow> DocData option outcome \<times> FirestoreDb" where
  "getDoc path ident db =
     (let (failed, db') = nextFault (db\<lparr>oplog := oplog db @ [GetDoc path ident]\<rparr>)
      in if failed then (Throws, db') else (Returns (map_of (docs db') (path, ident)), db'))"

text \<open>Merge semantics: a field of the new data replaces the stored one, other fields stay.\<close>

definition orElse :: "'a option \<Rightarrow> 'a option \<Rightarrow> 'a option" where
  "orElse new old = (case new of None \<Rightarrow> old | Some v \<Rightarrow> Some v)"

definition mergeDoc :: "DocData \<Rightarrow> DocData \<Rightarrow> DocData" where
  "mergeDoc old new =
     \<lparr>normalizedInput = orElse (normalizedInput new) (normalizedInput old),
      prediction = orElse (prediction new) (prediction old),
      rawPlace = orElse (rawPlace new) (rawPlace old),
      formattedAddress = orElse (formattedAddress new) (formattedAddress old),
      location = orElse (location new) (location old),
      updatedAt = orElse (updatedAt new) (updatedAt old)\<rparr>"

text \<open>\<^verbatim>\<open>setDoc(doc(collection(fs, path), id), data, { merge: true })\<close>\<close>

definition setDoc :: "string \<Rightarrow> string \<Rightarrow> DocData \<Rightarrow> FirestoreDb \<Rightarrow> unit outcome \<times> FirestoreDb" where
  "setDoc path ident data db =
     (let (failed, db') = nextFault (db\<lparr>oplog := oplog db @ [SetDoc path ident data]\<rparr>)
      in if failed then (Throws, db')
         else (Returns (),
               db'\<lparr>docs := AList.update (path, ident)
                  (case map_of (docs db') (path, ident) of
                     None \<Rightarrow> data
                   | Some old \<Rightarrow> mergeDoc old data) (docs db')\<rparr>))"

text \<open>
  The world behind the cache layers' closures: the store, the supply of strings that
  \<^verbatim>\<open>Math.random().toString(36).slice(2)\<close> draws from, and whatever state the
  user-supplied layers and callbacks keep.
\<close>

record 'u World =
  firestoreDb :: FirestoreDb
  randomSupply :: "string list"
  userState :: 'u

definition nextRandom :: "'u World \<Rightarrow> string \<times> 'u World" where
  "nextRandom w =
     (case randomSupply w of [] \<Rightarrow> ([], w) | r # rs \<Rightarrow> (r, w\<lparr>randomSupply := rs\<rparr>))"


section \<open>Cache layers\<close>

record CacheReadResult =
  predictions :: "AutocompletePrediction list"
  fromLayer :: string

type_synonym 'w CacheReadFn = "string \<Rightarrow> 'w \<Rightarrow> CacheReadResult option outcome \<times> 'w"

type_synonym 'w CacheWriteFn =
  "string \<Rightarrow> AutocompletePrediction list \<Rightarrow> 'w \<Rightarrow> unit outcome \<times> 'w"

record 'w CacheLayer =
  name :: string
  read :: "'w CacheReadFn option"
  "write" :: "'w CacheWriteFn option"

datatype Firestore = FirestoreHandle

record FirebasePlacesConfig =
  firestore :: "Firestore option"
  collectionPath :: "string option"

definition DEFAULT_COLLECTION_PATH :: string where
  "DEFAULT_COLLECTION_PATH = ''maps_addresses''"

text \<open>\<^verbatim>\<open>config.collectionPath ?? DEFAULT_COLLECTION_PATH\<close>\<close>

definition collectionPathOf :: "FirebasePlacesConfig \<Rightarrow> string" where
  "collectionPathOf config =
     (case collectionPath config of None \<Rightarrow> DEFAULT_COLLECTION_PATH | Some p \<Rightarrow> p)"

text \<open>
  The \<^verbatim>\<open>read\<close> of the built-in layer: \<^verbatim>\<open>snapshot.forEach\<close> collects the
  \<^verbatim>\<open>prediction\<close> field of every matching document that has one.
\<close>

definition firebaseRead :: "string \<Rightarrow> 'u World CacheReadFn" where
  "firebaseRead path input w =
     (let key = normalizeInput input;
          (r, db') = getDocs path key (firestoreDb w);
          w' = w\<lparr>firestoreDb := db'\<rparr>
      in case r of
           Throws \<Rightarrow> (Throws, w')
         | Returns snapshot \<Rightarrow>
             if snapshot = [] then (Returns None, w')
             else let found = List.map_filter prediction snapshot
                  in if found = [] then (Returns None, w')
                     else (Returns (Some \<lparr>predictions = found, fromLayer = ''firebase''\<rparr>), w'))"

text \<open>
  The \<^verbatim>\<open>write\<close> of the built-in layer. \<^verbatim>\<open>predictions.map\<close> starts one
  \<^verbatim>\<open>setDoc\<close> per prediction, in order, each under the prediction's own
  \<^verbatim>\<open>place_id\<close> or, without one, under the normalized input, a dash and a random suffix;
  \<^verbatim>\<open>Promise.all\<close> rejects when one of them rejects. \<open>firebaseWrites\<close> returns
  whether one did.
\<close>

fun firebaseWrites ::
  "string \<Rightarrow> string \<Rightarrow> AutocompletePrediction list \<Rightarrow> 'u World \<Rightarrow> bool \<times> 'u World" where
  "firebaseWrites path key [] w = (False, w)"
| "firebaseWrites path key (p # ps) w =
     (let (placeId, w1) =
            (case (if truthy (place_id p) then place_id p else None) of
               Some ident \<Rightarrow> (ident, w)
             | None \<Rightarrow> let (suffix, w0) = nextRandom w in (key @ ''-'' @ suffix, w0));
          (r, db') = setDoc path placeId
                       (emptyDoc\<lparr>normalizedInput := Some key,
                                 prediction := Some p,
                                 updatedAt := Some (now (firestoreDb w1))\<rparr>)
                       (firestoreDb w1);
          (failed, w2) = firebaseWrites path key ps (w1\<lparr>firestoreDb := db'\<rparr>)
      in (r = Throws \<or> failed, w2))"

definition firebaseWrite :: "string \<Rightarrow> 'u World CacheWriteFn" where
  "firebaseWrite path input ps w =
     (if ps = [] then (Returns (), w)
      else let key = normalizeInput input;
               (failed, w') = firebaseWrites path key ps w
           in (if failed then Throws else Returns (), w'))"

definition createFirebaseLayer :: "FirebasePlacesConfig option \<Rightarrow> 'u World CacheLayer option" where
  "createFirebaseLayer config =
     (case config of
        None \<Rightarrow> None
      | Some c \<Rightarrow>
          (case firestore c of
             None \<Rightarrow> None
           | Some _ \<Rightarrow>
               Some \<lparr>name = ''firebase'',
                     read = Some (firebaseRead (collectionPathOf c)),
                     write = Some (firebaseWrite (collectionPathOf c))\<rparr>))"


section \<open>The pipeline orchestrator\<close>

text \<open>
  The hook \<^verbatim>\<open>useFirebasePlacesAutocompleteService\<close>. Its React state and refs are the
  fields of \<open>Hook\<close>; \<open>placesService\<close> is the field of the underlying hook that the
  result re-exposes; \<open>world\<close> is the state behind the layers and callbacks; \<open>calls\<close>
  records, oldest first, every call made to a collaborator: a layer's \<^verbatim>\<open>read\<close> or
  \<^verbatim>\<open>write\<close>, an observer, \<^verbatim>\<open>base.getPlacePredictions\<close>, and the detail
  service's \<^verbatim>\<open>getDetails\<close>. A state setter takes effect at once.
\<close>

datatype Call =
    LayerRead string string
  | LayerWrite string string "AutocompletePrediction list"
  | AfterCacheHit string string "AutocompletePrediction list"
  | AfterGoogleResult string "AutocompletePrediction list"
  | BaseGetPlacePredictions string
  | GetDetails string

datatype PlacesServiceStatus =
    OK | ZERO_RESULTS | NOT_FOUND | INVALID_REQUEST | OVER_QUERY_LIMIT | REQUEST_DENIED
  | UNKNOWN_ERROR

text \<open>
  \<^verbatim>\<open>placesService.getDetails({ placeId }, callback)\<close>: the status and result handed to
  the callback, or a throw of the call itself.
\<close>

type_synonym PlacesService = "string \<Rightarrow> (PlacesServiceStatus \<times> PlaceResult option) outcome"

record 'w Hook =
  placePredictions :: "AutocompletePrediction list"
  isPlacePredictionsLoading :: bool
  lastResultFromCache :: "bool option"
  lastCacheLayerName :: "string option"
  lastInputRef :: "string option"
  placesService :: "PlacesService option"
  world :: 'w
  calls :: "Call list"

text \<open>The observers: layer name (for the cache hit), input, predictions.\<close>

type_synonym 'w OnAfterCacheHit =
  "string \<Rightarrow> string \<Rightarrow> AutocompletePrediction list \<Rightarrow> 'w \<Rightarrow> unit outcome \<times> 'w"

type_synonym 'w OnAfterGoogleResult =
  "string \<Rightarrow> AutocompletePrediction list \<Rightarrow> 'w \<Rightarrow> unit outcome \<times> 'w"

text \<open>The ordered list of layers: user-defined first, then the built-in one.\<close>

definition orderedLayers ::
  "'u World CacheLayer list \<Rightarrow> FirebasePlacesConfig option \<Rightarrow> 'u World CacheLayer list" where
  "orderedLayers cacheLayers firebase =
     cacheLayers @ (case createFirebaseLayer firebase of None \<Rightarrow> [] | Some l \<Rightarrow> [l])"

text \<open>
  One turn of the loop \<^verbatim>\<open>for (const layer of orderedLayersRef.current)\<close> of
  \<^verbatim>\<open>getPlacePredictions\<close>. The result is \<open>True\<close> when the turn ends in
  \<^verbatim>\<open>return\<close>, \<open>False\<close> when the loop goes on (\<^verbatim>\<open>continue\<close>, a result that is
  no hit, or the \<^verbatim>\<open>catch\<close>). The call of the observer is inside the
  \<^verbatim>\<open>try\<close> block, so a throw of the observer lands in the same \<^verbatim>\<open>catch\<close>.
\<close>

definition probeLayer ::
  "'w OnAfterCacheHit option \<Rightarrow> string \<Rightarrow> 'w CacheLayer \<Rightarrow> 'w Hook \<Rightarrow> bool \<times> 'w Hook" where
  "probeLayer onAfterCacheHit v layer h =
     (case read layer of
        None \<Rightarrow> (False, h)
      | Some rd \<Rightarrow>
          (let h1 = h\<lparr>calls := calls h @ [LayerRead (name layer) v]\<rparr>;
               (r, w1) = rd v (world h1);
               h2 = h1\<lparr>world := w1\<rparr>
           in case r of
                Throws \<Rightarrow> (False, h2)
              | Returns None \<Rightarrow> (False, h2)
              | Returns (Some result) \<Rightarrow>
                  if predictions result = [] then (False, h2)
                  else
                    (let h3 = h2\<lparr>placePredictions := predictions result,
                                   isPlacePredictionsLoading := False,
                                   lastResultFromCache := Some True,
                                   lastCacheLayerName := Some (name layer)\<rparr>
                     in case onAfterCacheHit of
                          None \<Rightarrow> (True, h3)
                        | Some observer \<Rightarrow>
                            (let h4 = h3\<lparr>calls := calls h3 @
                                         [AfterCacheHit (name layer) v (predictions result)]\<rparr>;
                                 (r', w2) = observer (name layer) v (predictions result) (world h4);
                                 h5 = h4\<lparr>world := w2\<rparr>
                             in case r' of
                                  Returns _ \<Rightarrow> (True, h5)
                                | Throws \<Rightarrow> (False, h5)))))"

fun probeLayers ::
  "'w OnAfterCacheHit option \<Rightarrow> string \<Rightarrow> 'w CacheLayer list \<Rightarrow> 'w Hook \<Rightarrow> bool \<times> 'w Hook" where
  "probeLayers onAfterCacheHit v [] h = (False, h)"
| "probeLayers onAfterCacheHit v (layer # rest) h =
     (case probeLayer onAfterCacheHit v layer h of
        (True, h') \<Rightarrow> (True, h')
      | (False, h') \<Rightarrow> probeLayers onAfterCacheHit v rest h')"

text \<open>
  \<^verbatim>\<open>getPlacePredictions({ input })\<close>, with \<open>layers\<close> the value of
  \<^verbatim>\<open>orderedLayersRef.current\<close>. The input is a string, on which
  \<^verbatim>\<open>input ?? ""\<close> is the input itself.
\<close>

definition getPlacePredictions ::
  "'w CacheLayer list \<Rightarrow> 'w OnAfterCacheHit option \<Rightarrow> string \<Rightarrow> 'w Hook \<Rightarrow> 'w Hook" where
  "getPlacePredictions layers onAfterCacheHit input h =
     (let v = input;
          normalized = normalizeInput v
      in if normalized = [] then
           h\<lparr>placePredictions := [],
             isPlacePredictionsLoading := False,
             lastResultFromCache := None,
             lastCacheLayerName := None,
             calls := calls h @ [BaseGetPlacePredictions v]\<rparr>
         else
           (case probeLayers onAfterCacheHit v layers (h\<lparr>isPlacePredictionsLoading := True\<rparr>) of
              (True, h') \<Rightarrow> h'
            | (False, h') \<Rightarrow>
                h'\<lparr>lastResultFromCache := Some False,
                   lastCacheLayerName := None,
                   lastInputRef := Some v,
                   calls := calls h' @ [BaseGetPlacePredictions v]\<rparr>))"

text \<open>
  The loop of the write-back: every layer with a \<^verbatim>\<open>write\<close> is called, and a throw is
  caught and ignored.
\<close>

fun writeBack ::
  "string \<Rightarrow> AutocompletePrediction list \<Rightarrow> 'w CacheLayer list \<Rightarrow> 'w Hook \<Rightarrow> 'w Hook" where
  "writeBack input ps [] h = h"
| "writeBack input ps (layer # rest) h =
     (case write layer of
        None \<Rightarrow> writeBack input ps rest h
      | Some wr \<Rightarrow>
          (let h1 = h\<lparr>calls := calls h @ [LayerWrite (name layer) input ps]\<rparr>;
               (r, w1) = wr input ps (world h1);
               h2 = h1\<lparr>world := w1\<rparr>
           in case r of
                Returns _ \<Rightarrow> writeBack input ps rest h2
              | Throws \<Rightarrow> writeBack input ps rest h2))"

text \<open>
  The state of the underlying hook that the effect reads: \<^verbatim>\<open>base.placePredictions\<close>
  (possibly undefined) and \<^verbatim>\<open>Boolean(base.isPlacePredictionsLoading)\<close>.
\<close>

record BaseState =
  basePlacePredictions :: "AutocompletePrediction list option"
  baseIsPlacePredictionsLoading :: bool

text \<open>
  One run of the effect that mirrors the underlying hook's predictions and writes them
  back, with \<open>layers\<close> the value of \<^verbatim>\<open>orderedLayersRef.current\<close>. The observer is
  called after the loop, outside its \<^verbatim>\<open>try\<close>; nothing follows it.
\<close>

definition baseEffect ::
  "'w CacheLayer list \<Rightarrow> 'w OnAfterGoogleResult option \<Rightarrow> BaseState \<Rightarrow> 'w Hook \<Rightarrow> 'w Hook" where
  "baseEffect layers onAfterGoogleResult base h =
     (let basePredictions = (case basePlacePredictions base of None \<Rightarrow> [] | Some ps \<Rightarrow> ps);
          baseLoading = baseIsPlacePredictionsLoading base
      in if basePredictions = [] \<and> \<not> baseLoading then
           h\<lparr>isPlacePredictionsLoading := False, placePredictions := []\<rparr>
         else
           (let h1 = h\<lparr>placePredictions := basePredictions,
                          isPlacePredictionsLoading := baseLoading\<rparr>
            in if layers = [] \<or> lastResultFromCache h \<noteq> Some False then h1
               else
                 (case lastInputRef h of
                    None \<Rightarrow> h1
                  | Some input \<Rightarrow>
                      if input = [] \<or> basePredictions = [] then h1
                      else
                        (let h2 = writeBack input basePredictions layers h1
                         in case onAfterGoogleResult of
                              None \<Rightarrow> h2
                            | Some observer \<Rightarrow>
                                (let h3 = h2\<lparr>calls := calls h2 @
                                             [AfterGoogleResult input basePredictions]\<rparr>;
                                     (r, w1) = observer input basePredictions (world h3)
                                 in h3\<lparr>world := w1\<rparr>)))))"


section \<open>The detail resolver\<close>

text \<open>
  The hook \<^verbatim>\<open>useFirebaseGoogleAddress\<close>: the service hook it wraps, and its own state.
\<close>

record 'u Address =
  service :: "'u World Hook"
  selectedPlace :: "PlaceResult option"
  isSelecting :: bool

record SelectResult =
  place :: "PlaceResult option"
  fromCache :: bool
  cacheLayerName :: "string option"

definition noPlace :: SelectResult where
  "noPlace = \<lparr>place = None, fromCache = False, cacheLayerName = None\<rparr>"

definition dbOf :: "'u Address \<Rightarrow> FirestoreDb" where
  "dbOf a = firestoreDb (world (service a))"

definition withDb :: "FirestoreDb \<Rightarrow> 'u Address \<Rightarrow> 'u Address" where
  "withDb db a = a\<lparr>service := (service a)\<lparr>world := (world (service a))\<lparr>firestoreDb := db\<rparr>\<rparr>\<rparr>"

definition logCall :: "Call \<Rightarrow> 'u Address \<Rightarrow> 'u Address" where
  "logCall c a = a\<lparr>service := (service a)\<lparr>calls := calls (service a) @ [c]\<rparr>\<rparr>"

text \<open>The record that step 3 of \<^verbatim>\<open>selectPrediction\<close> merges into the store.\<close>

definition detailDoc :: "PlaceResult \<Rightarrow> nat \<Rightarrow> DocData" where
  "detailDoc pl t =
     emptyDoc\<lparr>rawPlace := Some pl,
              formattedAddress := Some (formatted_address pl),
              location := Some (case geometry pl of
                                  None \<Rightarrow> None
                                | Some g \<Rightarrow>
                                    (case geometry_location g of
                                       None \<Rightarrow> None
                                     | Some l \<Rightarrow> Some \<lparr>lat = lat l, lng = lng l\<rparr>)),
              updatedAt := Some t\<rparr>"

text \<open>
  \<^verbatim>\<open>selectPrediction\<close> from \<^verbatim>\<open>setSelectedPlace(place)\<close> on: step 3 and the final
  \<^verbatim>\<open>return\<close>. The \<^verbatim>\<open>await setDoc\<close> is inside the function's one
  \<^verbatim>\<open>try\<close> block, whose \<^verbatim>\<open>catch\<close> returns no place.
\<close>

definition persistDetails ::
  "FirebasePlacesConfig option \<Rightarrow> string \<Rightarrow> PlaceResult \<Rightarrow> 'u Address \<Rightarrow> SelectResult \<times> 'u Address"
  where
  "persistDetails firebase placeId pl a =
     (let fs = (case firebase of None \<Rightarrow> None | Some c \<Rightarrow> firestore c);
          path = (case firebase of None \<Rightarrow> DEFAULT_COLLECTION_PATH | Some c \<Rightarrow> collectionPathOf c);
          a1 = a\<lparr>selectedPlace := Some pl\<rparr>;
          (r, a2) =
            (case fs of
               None \<Rightarrow> (Returns (), a1)
             | Some _ \<Rightarrow>
                 (let (r, db') = setDoc path placeId (detailDoc pl (now (dbOf a1))) (dbOf a1)
                  in (r, withDb db' a1)))
      in case r of
           Throws \<Rightarrow> (noPlace, a2\<lparr>isSelecting := False\<rparr>)
         | Returns _ \<Rightarrow>
             (\<lparr>place = Some pl, fromCache = False,
               cacheLayerName = (if lastResultFromCache (service a2) = Some True
                                 then lastCacheLayerName (service a2) else None)\<rparr>,
              a2\<lparr>isSelecting := False\<rparr>))"

text \<open>
  Step 2: the detail service, when there is one; its callback resolves the promise with
  the result on status \<open>OK\<close> and with \<^verbatim>\<open>null\<close> otherwise.
\<close>

definition fetchDetails ::
  "FirebasePlacesConfig option \<Rightarrow> string \<Rightarrow> 'u Address \<Rightarrow> SelectResult \<times> 'u Address" where
  "fetchDetails firebase placeId a =
     (case placesService (service a) of
        None \<Rightarrow> (noPlace, a\<lparr>isSelecting := False\<rparr>)
      | Some getDetails \<Rightarrow>
          (let a1 = logCall (GetDetails placeId) a
           in case getDetails placeId of
                Throws \<Rightarrow> (noPlace, a1\<lparr>isSelecting := False\<rparr>)
              | Returns (status, result) \<Rightarrow>
                  (case (if status = OK then result else None) of
                     None \<Rightarrow> (noPlace, a1\<lparr>isSelecting := False\<rparr>)
                   | Some pl \<Rightarrow> persistDetails firebase placeId pl a1)))"

text \<open>\<^verbatim>\<open>selectPrediction(prediction)\<close>: the guard, step 1, and the rest.\<close>

definition selectPrediction ::
  "FirebasePlacesConfig option \<Rightarrow> AutocompletePrediction option \<Rightarrow> 'u Address
     \<Rightarrow> SelectResult \<times> 'u Address" where
  "selectPrediction firebase p a =
     (case (case p of None \<Rightarrow> None
                    | Some pr \<Rightarrow> if truthy (place_id pr) then place_id pr else None) of
        None \<Rightarrow> (noPlace, a)
      | Some placeId \<Rightarrow>
          (let a1 = a\<lparr>isSelecting := True\<rparr>;
               fs = (case firebase of None \<Rightarrow> None | Some c \<Rightarrow> firestore c);
               path = (case firebase of
                         None \<Rightarrow> DEFAULT_COLLECTION_PATH
                       | Some c \<Rightarrow> collectionPathOf c)
           in case fs of
                None \<Rightarrow> fetchDetails firebase placeId a1
              | Some _ \<Rightarrow>
                  (let (r, db') = getDoc path placeId (dbOf a1);
                       a2 = withDb db' a1
                   in case r of
                        Throws \<Rightarrow> (noPlace, a2\<lparr>isSelecting := False\<rparr>)
                      | Returns None \<Rightarrow> fetchDetails firebase placeId a2
                      | Returns (Some data) \<Rightarrow>
                          (case rawPlace data of
                             None \<Rightarrow> fetchDetails firebase placeId a2
                           | Some rp \<Rightarrow>
                               (\<lparr>place = Some rp, fromCache = True,
                                 cacheLayerName = Some ''firebase''\<rparr>,
                                a2\<lparr>selectedPlace := Some rp, isSelecting := False\<rparr>)))))"


section \<open>Initial states and example configurations\<close>

text \<open>
  The initial state of the two hooks, as their \<^verbatim>\<open>useState\<close> and \<^verbatim>\<open>useRef\<close> calls
  give it, and the layers, records and store contents that the examples below run on.
\<close>

definition initialHook :: "PlacesService option \<Rightarrow> 'w \<Rightarrow> 'w Hook" where
  "initialHook svc w =
     \<lparr>placePredictions = [], isPlacePredictionsLoading = False, lastResultFromCache = None,
      lastCacheLayerName = None, lastInputRef = None, placesService = svc, world = w, calls = []\<rparr>"

definition initialAddress :: "PlacesService option \<Rightarrow> 'u World \<Rightarrow> 'u Address" where
  "initialAddress svc w = \<lparr>service = initialHook svc w, selectedPlace = None, isSelecting = False\<rparr>"

definition stubLayer ::
  "string \<Rightarrow> CacheReadResult option outcome \<Rightarrow> unit outcome \<Rightarrow> 'w CacheLayer" where
  "stubLayer n r wr =
     \<lparr>name = n, read = Some (\<lambda>input w. (r, w)), write = Some (\<lambda>input ps w. (wr, w))\<rparr>"

definition exampleDb :: "((string \<times> string) \<times> DocData) list \<Rightarrow> bool list \<Rightarrow> FirestoreDb" where
  "exampleDb ds fs = \<lparr>docs = ds, faults = fs, now = 7, oplog = []\<rparr>"

definition exampleWorld :: "((string \<times> string) \<times> DocData) list \<Rightarrow> bool list \<Rightarrow> unit World" where
  "exampleWorld ds fs = \<lparr>firestoreDb = exampleDb ds fs, randomSupply = [''k3x9''], userState = ()\<rparr>"

definition paris :: AutocompletePrediction where
  "paris = \<lparr>place_id = Some ''ChIJparis'', description = ''Paris, France''\<rparr>"

definition parisTexas :: AutocompletePrediction where
  "parisTexas = \<lparr>place_id = Some ''ChIJtexas'', description = ''Paris, TX, USA''\<rparr>"

definition parisPlace :: PlaceResult where
  "parisPlace = \<lparr>formatted_address = Some ''Paris, France'',
     geometry = Some \<lparr>geometry_location = Some \<lparr>lat = 48, lng = 2\<rparr>\<rparr>\<rparr>"

definition exampleConfig :: FirebasePlacesConfig where
  "exampleConfig = \<lparr>firestore = Some FirestoreHandle, collectionPath = None\<rparr>"


definition hitOf :: "string \<Rightarrow> AutocompletePrediction list \<Rightarrow> CacheReadResult option outcome" where
  "hitOf n ps = Returns (Some \<lparr>predictions = ps, fromLayer = n\<rparr>)"

definition startHook :: "unit World Hook" where
  "startHook = initialHook None (exampleWorld [] [])"

definition memoLayer :: "unit World CacheLayer" where
  "memoLayer = stubLayer ''memo'' (Returns None) (Returns ())"

definition throwingObserver :: "unit World OnAfterCacheHit" where
  "throwingObserver layerName input ps w = (Throws, w)"

definition delivered :: "AutocompletePrediction list \<Rightarrow> BaseState" where
  "delivered ps = \<lparr>basePlacePredictions = Some ps, baseIsPlacePredictionsLoading = False\<rparr>"


definition bothHit :: "unit World CacheLayer list" where
  "bothHit = [stubLayer ''L1'' (hitOf ''L1'' [paris]) (Returns ()),
              stubLayer ''L2'' (hitOf ''L2'' [parisTexas]) (Returns ())]"

definition parisWriteBack :: "unit World Hook" where
  "parisWriteBack =
     baseEffect [memoLayer] None (delivered [paris])
       (getPlacePredictions [memoLayer] None '' Paris '' startHook)"

definition detailsOk :: PlacesService where
  "detailsOk placeId = Returns (OK, Some parisPlace)"

definition writeFails :: "unit Address" where
  "writeFails = initialAddress (Some detailsOk) (exampleWorld [] [False, True])"

definition mainSt :: AutocompletePrediction where
  "mainSt = \<lparr>place_id = Some ''ChIJmain'', description = ''123 Main St''\<rparr>"

definition noId :: AutocompletePrediction where
  "noId = \<lparr>place_id = None, description = ''somewhere''\<rparr>"

definition builtinOnly :: "unit World CacheLayer list" where
  "builtinOnly = orderedLayers [] (Some exampleConfig)"

definition afterA :: "unit World Hook" where
  "afterA = baseEffect builtinOnly None (delivered [mainSt, noId])
              (getPlacePredictions builtinOnly None ''123 Main'' startHook)"

definition berlinAfterParis :: "unit World Hook" where
  "berlinAfterParis = getPlacePredictions [memoLayer] None ''berlin'' parisWriteBack"

section \<open>Auxiliary facts\<close>


lemma probeLayers_append:
  "probeLayers obs v (xs @ ys) h =
     (case probeLayers obs v xs h of
        (True, h') \<Rightarrow> (True, h')
      | (False, h') \<Rightarrow> probeLayers obs v ys h')"
  by (induction xs arbitrary: h) (auto split: prod.splits bool.splits)

lemma probeLayer_throws:
  "read layer = Some rd \<Longrightarrow> rd v (world h) = (Throws, w1) \<Longrightarrow>
   probeLayer obs v layer h = (False, h\<lparr>calls := calls h @ [LayerRead (name layer) v], world := w1\<rparr>)"
  by (simp add: probeLayer_def)

lemma probeLayer_absent:
  "read layer = Some rd \<Longrightarrow> rd v (world h) = (Returns None, w1) \<Longrightarrow>
   probeLayer obs v layer h = (False, h\<lparr>calls := calls h @ [LayerRead (name layer) v], world := w1\<rparr>)"
  by (simp add: probeLayer_def)

lemma probeLayer_empty:
  "read layer = Some rd \<Longrightarrow> rd v (world h) = (Returns (Some res), w1) \<Longrightarrow> predictions res = [] \<Longrightarrow>
   probeLayer obs v layer h = (False, h\<lparr>calls := calls h @ [LayerRead (name layer) v], world := w1\<rparr>)"
  by (simp add: probeLayer_def)





lemma getDoc_oplog: "getDoc path i db = (r, db') \<Longrightarrow> oplog db' = oplog db @ [GetDoc path i]"
  by (auto simp: getDoc_def nextFault_def Let_def split: list.splits if_splits)

lemma map_filter_Nil_iff: "List.map_filter f xs = [] \<longleftrightarrow> (\<forall>x\<in>set xs. f x = None)"
  by (induction xs) (auto simp: List.map_filter_simps split: option.splits)




lemma normalizeInput_Paris: "normalizeInput '' Paris '' = ''paris''"
  by code_simp

lemma normalizeInput_paris: "normalizeInput ''paris'' = ''paris''"
  by code_simp

lemma getDocs_oplog:
  "oplog (snd (getDocs path key db)) = oplog db @ [GetDocs path key]"
  by (simp add: getDocs_def nextFault_def Let_def split: list.splits)

lemma probeLayer_logs_read:
  "read layer = Some rd \<Longrightarrow>
   \<exists>cs. calls (snd (probeLayer obs v layer h)) = calls h @ LayerRead (name layer) v # cs"
  by (auto simp: probeLayer_def Let_def split: option.splits prod.splits outcome.splits)

lemma first_hit_wins:
  assumes "probeLayers obs v pre h = (False, hp)"
    and "read layer = Some rd"
    and "rd v (world hp) = (Returns (Some res), w1)"
    and "predictions res \<noteq> []"
    and "obs = None"
  shows "probeLayers obs v (pre @ layer # post) h =
           (True, hp\<lparr>calls := calls hp @ [LayerRead (name layer) v],
                      world := w1,
                      placePredictions := predictions res,
                      isPlacePredictionsLoading := False,
                      lastResultFromCache := Some True,
                      lastCacheLayerName := Some (name layer)\<rparr>)"
  using assms by (simp add: probeLayers_append probeLayer_def)

lemma first_hit_wins_observed:
  assumes "probeLayers obs v pre h = (False, hp)"
    and "read layer = Some rd"
    and "rd v (world hp) = (Returns (Some res), w1)"
    and "predictions res \<noteq> []"
    and "obs = Some observer"
    and "observer (name layer) v (predictions res) w1 = (Returns (), w2)"
  shows "probeLayers obs v (pre @ layer # post) h =
           (True, hp\<lparr>calls := calls hp @ [LayerRead (name layer) v,
                                           AfterCacheHit (name layer) v (predictions res)],
                      world := w2,
                      placePredictions := predictions res,
                      isPlacePredictionsLoading := False,
                      lastResultFromCache := Some True,
                      lastCacheLayerName := Some (name layer)\<rparr>)"
  using assms by (simp add: probeLayers_append probeLayer_def)

lemma getPlacePredictions_hit:
  "normalizeInput v \<noteq> [] \<Longrightarrow>
   probeLayers obs v layers (h\<lparr>isPlacePredictionsLoading := True\<rparr>) = (True, h') \<Longrightarrow>
   getPlacePredictions layers obs v h = h'"
  by (simp add: getPlacePredictions_def)

lemma observer_returning_first_layer_wins:
  "lastCacheLayerName (getPlacePredictions bothHit None ''paris'' startHook) = Some ''L1''
   \<and> calls (getPlacePredictions bothHit None ''paris'' startHook) = [LayerRead ''L1'' ''paris'']"
  by (simp add: getPlacePredictions_def Let_def normalizeInput_paris bothHit_def probeLayer_def
      stubLayer_def hitOf_def startHook_def initialHook_def)

lemma select_fetches_and_stores:
  "fst (selectPrediction (Some exampleConfig) (Some paris)
          (initialAddress (Some detailsOk) (exampleWorld [] []))) =
     \<lparr>place = Some parisPlace, fromCache = False, cacheLayerName = None\<rparr>
   \<and> map fst (docs (dbOf (snd (selectPrediction (Some exampleConfig) (Some paris)
          (initialAddress (Some detailsOk) (exampleWorld [] [])))))) =
     [(''maps_addresses'', ''ChIJparis'')]"
  by (simp add: selectPrediction_def fetchDetails_def persistDetails_def Let_def paris_def
      exampleConfig_def collectionPathOf_def DEFAULT_COLLECTION_PATH_def getDoc_def setDoc_def
      nextFault_def dbOf_def withDb_def logCall_def initialAddress_def initialHook_def
      exampleWorld_def exampleDb_def detailsOk_def)

lemma createFirebaseLayer_configured:
  "firestore c = Some fsh \<Longrightarrow>
   createFirebaseLayer (Some c) =
     Some \<lparr>name = ''firebase'', read = Some (firebaseRead (collectionPathOf c)),
           write = Some (firebaseWrite (collectionPathOf c))\<rparr>"
  by (simp add: createFirebaseLayer_def)

text \<open>
  The store starts empty: the query \<^verbatim>\<open>123 Main\<close> misses, the external result is
  written under the key \<^verbatim>\<open>123 main\<close>, and a later query with the same normalized form
  is answered by the built-in layer.
\<close>

lemma builtin_store_round_trip:
  "map fst (docs (firestoreDb (world afterA))) =
     [(''maps_addresses'', ''ChIJmain''), (''maps_addresses'', ''123 main-k3x9'')]
   \<and> map (normalizedInput \<circ> snd) (docs (firestoreDb (world afterA))) =
     [Some ''123 main'', Some ''123 main'']
   \<and> placePredictions (getPlacePredictions builtinOnly None '' 123 MAIN '' afterA) = [mainSt, noId]
   \<and> lastResultFromCache (getPlacePredictions builtinOnly None '' 123 MAIN '' afterA) = Some True
   \<and> lastCacheLayerName (getPlacePredictions builtinOnly None '' 123 MAIN '' afterA) = Some ''firebase''
   \<and> calls (getPlacePredictions builtinOnly None '' 123 MAIN '' afterA) =
       calls afterA @ [LayerRead ''firebase'' '' 123 MAIN '']"
  by code_simp

lemma getPlacePredictions_miss:
  "normalizeInput v \<noteq> [] \<Longrightarrow>
   probeLayers obs v layers (h\<lparr>isPlacePredictionsLoading := True\<rparr>) = (False, h') \<Longrightarrow>
   getPlacePredictions layers obs v h =
     h'\<lparr>lastResultFromCache := Some False, lastCacheLayerName := None, lastInputRef := Some v,
        calls := calls h' @ [BaseGetPlacePredictions v]\<rparr>"
  by (simp add: getPlacePredictions_def)

lemma layer_passed_over:
  assumes "normalizeInput v \<noteq> []"
    and "probeLayers obs v pre (h\<lparr>isPlacePredictionsLoading := True\<rparr>) = (False, hp)"
    and "probeLayer obs v layer hp = (False, hq)"
  shows "probeLayers obs v (pre @ layer # post) (h\<lparr>isPlacePredictionsLoading := True\<rparr>) =
           probeLayers obs v post hq"
    and "probeLayers obs v post hq = (True, h') \<Longrightarrow>
           getPlacePredictions (pre @ layer # post) obs v h = h'"
    and "probeLayers obs v post hq = (False, h') \<Longrightarrow>
           getPlacePredictions (pre @ layer # post) obs v h =
             h'\<lparr>lastResultFromCache := Some False, lastCacheLayerName := None,
                lastInputRef := Some v, calls := calls h' @ [BaseGetPlacePredictions v]\<rparr>"
    and "getPlacePredictions (pre @ [layer]) obs v h =
           hq\<lparr>lastResultFromCache := Some False, lastCacheLayerName := None,
              lastInputRef := Some v, calls := calls hq @ [BaseGetPlacePredictions v]\<rparr>"
    and "read next = Some rd2 \<Longrightarrow> rd2 v (world hq) = (Returns (Some res), w2) \<Longrightarrow>
         predictions res \<noteq> [] \<Longrightarrow> obs = None \<Longrightarrow>
           getPlacePredictions (pre @ layer # next # rest) obs v h =
             hq\<lparr>calls := calls hq @ [LayerRead (name next) v],
                world := w2,
                placePredictions := predictions res,
                isPlacePredictionsLoading := False,
                lastResultFromCache := Some True,
                lastCacheLayerName := Some (name next)\<rparr>"
proof -
  let ?h = "h\<lparr>isPlacePredictionsLoading := True\<rparr>"
  have step: "probeLayers obs v (pre @ layer # post) ?h = probeLayers obs v post hq" for post
    using assms by (simp add: probeLayers_append)
  show "probeLayers obs v (pre @ layer # post) ?h = probeLayers obs v post hq"
    by (rule step)
  show hit: "getPlacePredictions (pre @ layer # post) obs v h = h'"
    if "probeLayers obs v post hq = (True, h')" for h' post
    using assms(1) step [of post] that by (simp add: getPlacePredictions_hit)
  show miss: "getPlacePredictions (pre @ layer # post) obs v h =
              h'\<lparr>lastResultFromCache := Some False, lastCacheLayerName := None,
                 lastInputRef := Some v, calls := calls h' @ [BaseGetPlacePredictions v]\<rparr>"
    if "probeLayers obs v post hq = (False, h')" for h' post
    using assms(1) step [of post] that by (simp add: getPlacePredictions_miss)
  show "getPlacePredictions (pre @ [layer]) obs v h =
            hq\<lparr>lastResultFromCache := Some False, lastCacheLayerName := None,
               lastInputRef := Some v, calls := calls hq @ [BaseGetPlacePredictions v]\<rparr>"
    by (rule miss) simp
  show "getPlacePredictions (pre @ layer # next # rest) obs v h =
              hq\<lparr>calls := calls hq @ [LayerRead (name next) v],
                 world := w2,
                 placePredictions := predictions res,
                 isPlacePredictionsLoading := False,
                 lastResultFromCache := Some True,
                 lastCacheLayerName := Some (name next)\<rparr>"
    if a: "read next = Some rd2" "rd2 v (world hq) = (Returns (Some res), w2)"
          "predictions res \<noteq> []" "obs = None"
  proof -
    have "probeLayers obs v ([] @ next # rest) hq =
            (True, hq\<lparr>calls := calls hq @ [LayerRead (name next) v],
                 world := w2,
                 placePredictions := predictions res,
                 isPlacePredictionsLoading := False,
                 lastResultFromCache := Some True,
                 lastCacheLayerName := Some (name next)\<rparr>)"
      using a by (intro first_hit_wins [where rd = rd2]) simp_all
    then show ?thesis by (intro hit) simp
  qed
qed




lemma effect_rerun_writes_again:
  "calls (baseEffect [memoLayer] None (delivered [paris]) parisWriteBack) =
     calls parisWriteBack @ [LayerWrite ''memo'' '' Paris '' [paris]]"
  by (simp add: parisWriteBack_def getPlacePredictions_def Let_def normalizeInput_Paris
      memoLayer_def probeLayer_def stubLayer_def startHook_def initialHook_def baseEffect_def
      delivered_def)

lemma normalizeInput_berlin: "normalizeInput ''berlin'' = ''berlin''"
  by code_simp

lemma stale_predictions_written_under_next_miss:
  "lastResultFromCache berlinAfterParis = Some False
   \<and> calls (baseEffect [memoLayer] None (delivered [paris]) berlinAfterParis) =
       calls parisWriteBack @
       [LayerRead ''memo'' ''berlin'', BaseGetPlacePredictions ''berlin'',
        LayerWrite ''memo'' ''berlin'' [paris]]"
  by (simp add: berlinAfterParis_def parisWriteBack_def getPlacePredictions_def Let_def
      normalizeInput_Paris normalizeInput_berlin memoLayer_def probeLayer_def stubLayer_def
      startHook_def initialHook_def baseEffect_def delivered_def)

section \<open>Properties of the prediction pipeline\<close>

text \<open>
  C1: On a query with a non-empty normalized key the orchestrator reads the layers in
  their configured order and stops at the first one whose \<^verbatim>\<open>read\<close> yields a
  non-empty set: that set becomes the current predictions, the provenance becomes
  \<open>(True, name of that layer)\<close>, the cache-hit observer is called, and neither a later
  layer nor the external service is called. The lemmas \<open>first_hit_wins\<close> and
  \<open>first_hit_wins_observed\<close> show this when no observer is configured and when the
  observer returns. The observer is called inside the \<^verbatim>\<open>try\<close> block of the loop, whose
  \<^verbatim>\<open>catch\<close> is written for the layers' failures: when the observer throws, the throw is
  caught there and the loop goes on. With two layers that both hit and an observer that
  throws, the second layer is read as well, the external service is called, and the
  provenance ends as a miss.
\<close>

theorem throwing_observer_defeats_first_hit:
  "normalizeInput ''paris'' \<noteq> []
   \<and> calls (getPlacePredictions bothHit (Some throwingObserver) ''paris'' startHook) =
       [LayerRead ''L1'' ''paris'', AfterCacheHit ''L1'' ''paris'' [paris],
        LayerRead ''L2'' ''paris'', AfterCacheHit ''L2'' ''paris'' [parisTexas],
        BaseGetPlacePredictions ''paris'']
   \<and> placePredictions (getPlacePredictions bothHit (Some throwingObserver) ''paris'' startHook) =
       [parisTexas]
   \<and> lastResultFromCache (getPlacePredictions bothHit (Some throwingObserver) ''paris'' startHook) =
       Some False
   \<and> lastCacheLayerName (getPlacePredictions bothHit (Some throwingObserver) ''paris'' startHook) =
       None"
  by (simp add: getPlacePredictions_def Let_def normalizeInput_paris bothHit_def probeLayer_def
      stubLayer_def hitOf_def startHook_def initialHook_def throwingObserver_def)






text \<open>
  C3: For two queries with the same normalized form, the built-in layer behaves the same
  from the same world: its \<^verbatim>\<open>read\<close> issues the same store lookup, keyed by the common
  normalized form, and returns the same result, and its \<^verbatim>\<open>write\<close> stores the same
  records under the same keys. A layer's \<^verbatim>\<open>read\<close> is called with the query as it was
  typed, so the arguments that two such queries give to a user-supplied layer can differ.
\<close>

theorem builtin_layer_normalizes:
  assumes "normalizeInput q1 = normalizeInput q2"
  shows "firebaseRead path q1 w = firebaseRead path q2 w
       \<and> firebaseWrite path q1 ps w = firebaseWrite path q2 ps w
       \<and> oplog (firestoreDb (snd (firebaseRead path q1 w))) =
           oplog (firestoreDb w) @ [GetDocs path (normalizeInput q1)]
       \<and> (\<forall>layer rd. read layer = Some rd \<longrightarrow>
            (\<exists>cs. calls (snd (probeLayer obs q1 layer h)) =
                    calls h @ LayerRead (name layer) q1 # cs))"
proof -
  have "oplog (firestoreDb (snd (firebaseRead path q1 w))) =
          oplog (snd (getDocs path (normalizeInput q1) (firestoreDb w)))"
    by (simp add: firebaseRead_def Let_def split: prod.splits outcome.splits)
  then have "oplog (firestoreDb (snd (firebaseRead path q1 w))) =
          oplog (firestoreDb w) @ [GetDocs path (normalizeInput q1)]"
    by (simp add: getDocs_oplog)
  moreover have "firebaseRead path q1 w = firebaseRead path q2 w"
    using assms by (simp add: firebaseRead_def)
  moreover have "firebaseWrite path q1 ps w = firebaseWrite path q2 ps w"
    using assms by (simp add: firebaseWrite_def)
  ultimately show ?thesis
    using probeLayer_logs_read by blast
qed

theorem builtin_layer_normalizes_witness:
  "firebaseRead ''maps_addresses'' '' Paris '' (exampleWorld [] []) =
     firebaseRead ''maps_addresses'' ''paris'' (exampleWorld [] [])
   \<and> firebaseWrite ''maps_addresses'' '' Paris '' [paris] (exampleWorld [] []) =
     firebaseWrite ''maps_addresses'' ''paris'' [paris] (exampleWorld [] [])
   \<and> oplog (firestoreDb (snd (firebaseRead ''maps_addresses'' '' Paris '' (exampleWorld [] [])))) =
     [GetDocs ''maps_addresses'' ''paris'']"
proof -
  have n: "normalizeInput '' Paris '' = normalizeInput ''paris''"
    by (simp add: normalizeInput_Paris normalizeInput_paris)
  note t = builtin_layer_normalizes [OF n, where path = "''maps_addresses''"
        and w = "exampleWorld [] []" and ps = "[paris]" and obs = None and h = startHook]
  from t [THEN conjunct2, THEN conjunct2, THEN conjunct1]
  have "oplog (firestoreDb (snd (firebaseRead ''maps_addresses'' '' Paris ''
                 (exampleWorld [] [])))) = [GetDocs ''maps_addresses'' ''paris'']"
    by (simp add: normalizeInput_Paris exampleWorld_def exampleDb_def)
  with t show ?thesis by blast
qed

theorem read_argument_counterexample:
  "normalizeInput '' Paris '' = normalizeInput ''paris''
   \<and> calls (getPlacePredictions [memoLayer] None '' Paris '' startHook) =
       [LayerRead ''memo'' '' Paris '', BaseGetPlacePredictions '' Paris '']
   \<and> calls (getPlacePredictions [memoLayer] None ''paris'' startHook) =
       [LayerRead ''memo'' ''paris'', BaseGetPlacePredictions ''paris'']
   \<and> calls (getPlacePredictions [memoLayer] None '' Paris '' startHook) \<noteq>
       calls (getPlacePredictions [memoLayer] None ''paris'' startHook)"
  by (simp add: getPlacePredictions_def Let_def normalizeInput_Paris normalizeInput_paris
      memoLayer_def probeLayer_def stubLayer_def startHook_def initialHook_def)

text \<open>
  C5: For every input whose normalized key is empty, \<^verbatim>\<open>getPlacePredictions\<close> clears the
  current predictions, clears the provenance (\<open>lastResultFromCache\<close> and
  \<open>lastCacheLayerName\<close> both absent), forwards the input as it is to the external
  prediction binding, and calls no cache layer: the one call it makes is the forwarding,
  and the world behind the layers is untouched.
\<close>

theorem empty_query_resets:
  assumes "normalizeInput input = []"
  shows "placePredictions (getPlacePredictions layers obs input h) = []
       \<and> lastResultFromCache (getPlacePredictions layers obs input h) = None
       \<and> lastCacheLayerName (getPlacePredictions layers obs input h) = None
       \<and> calls (getPlacePredictions layers obs input h) = calls h @ [BaseGetPlacePredictions input]
       \<and> world (getPlacePredictions layers obs input h) = world h"
  using assms by (simp add: getPlacePredictions_def)

theorem empty_query_resets_witness:
  "normalizeInput ''  '' = []
   \<and> calls (getPlacePredictions [stubLayer ''memo'' (Returns None) (Returns ())] None ''  ''
        (initialHook None (exampleWorld [] []))) = [BaseGetPlacePredictions ''  '']"
proof -
  have h: "normalizeInput ''  '' = []" by code_simp
  show ?thesis
    using h empty_query_resets [OF h, of "[stubLayer ''memo'' (Returns None) (Returns ())]" None
        "initialHook None (exampleWorld [] [])"]
    by (simp add: initialHook_def)
qed


text \<open>
  C10: When the store's query returns, the \<^verbatim>\<open>read\<close> of the built-in layer returns
  absent exactly when no matching record carries a \<^verbatim>\<open>prediction\<close> field: when no
  record matches, and also when records match and none of them has the field.
\<close>

theorem firebase_read_needs_prediction:
  assumes "getDocs path (normalizeInput input) (firestoreDb w) = (Returns snapshot, db')"
  shows "fst (firebaseRead path input w) = Returns None
           \<longleftrightarrow> (\<forall>d\<in>set snapshot. prediction d = None)"
  using assms by (auto simp: firebaseRead_def Let_def map_filter_Nil_iff)



theorem firebase_read_needs_prediction_witness:
  "fst (firebaseRead ''maps_addresses'' '' Paris ''
     (exampleWorld [((''maps_addresses'', ''ChIJparis''),
        emptyDoc\<lparr>normalizedInput := Some ''paris'', rawPlace := Some parisPlace\<rparr>)] []))
   = Returns None"
proof -
  let ?d = "emptyDoc\<lparr>normalizedInput := Some ''paris'', rawPlace := Some parisPlace\<rparr>"
  let ?w = "exampleWorld [((''maps_addresses'', ''ChIJparis''), ?d)] []"
  have n: "normalizeInput '' Paris '' = ''paris''" by code_simp
  have g: "getDocs ''maps_addresses'' (normalizeInput '' Paris '') (firestoreDb ?w) =
             (Returns [?d], (firestoreDb ?w)\<lparr>oplog := [GetDocs ''maps_addresses'' ''paris'']\<rparr>)"
    by (simp add: n getDocs_def nextFault_def exampleWorld_def exampleDb_def)
  have "\<forall>d\<in>set [?d]. prediction d = None"
    by (simp add: emptyDoc_def)
  with firebase_read_needs_prediction [OF g] show ?thesis by simp
qed

text \<open>
  C7: When the \<^verbatim>\<open>read\<close> of a layer throws, \<^verbatim>\<open>getPlacePredictions\<close> goes on with
  the layers behind it, from a state in which only the log of calls and the world behind
  the layers have changed: a hit of a later layer is its result, a next layer that hits
  sets the predictions and the provenance, and when no layer is left or none hits, the
  external service is called and the provenance is a miss. The throw is indistinguishable
  from a \<^verbatim>\<open>read\<close> that returns absent with the same effect on the world;
  \<^verbatim>\<open>getPlacePredictions\<close> has no failing outcome.
\<close>

theorem read_failure_is_miss:
  assumes "normalizeInput v \<noteq> []"
    and "probeLayers obs v pre (h\<lparr>isPlacePredictionsLoading := True\<rparr>) = (False, hp)"
    and "read layer = Some rd"
    and "rd v (world hp) = (Throws, w1)"
    and "hq = hp\<lparr>calls := calls hp @ [LayerRead (name layer) v], world := w1\<rparr>"
  shows "probeLayers obs v (pre @ layer # post) (h\<lparr>isPlacePredictionsLoading := True\<rparr>) =
           probeLayers obs v post hq
       \<and> (\<forall>h'. probeLayers obs v post hq = (True, h') \<longrightarrow>
            getPlacePredictions (pre @ layer # post) obs v h = h')
       \<and> (\<forall>h'. probeLayers obs v post hq = (False, h') \<longrightarrow>
            getPlacePredictions (pre @ layer # post) obs v h =
              h'\<lparr>lastResultFromCache := Some False, lastCacheLayerName := None,
                 lastInputRef := Some v, calls := calls h' @ [BaseGetPlacePredictions v]\<rparr>)
       \<and> getPlacePredictions (pre @ [layer]) obs v h =
            hq\<lparr>lastResultFromCache := Some False, lastCacheLayerName := None,
               lastInputRef := Some v, calls := calls hq @ [BaseGetPlacePredictions v]\<rparr>
       \<and> (\<forall>next rest rd2 res w2.
            read next = Some rd2 \<and> rd2 v w1 = (Returns (Some res), w2)
              \<and> predictions res \<noteq> [] \<and> obs = None \<longrightarrow>
            getPlacePredictions (pre @ layer # next # rest) obs v h =
              hq\<lparr>calls := calls hq @ [LayerRead (name next) v],
                 world := w2,
                 placePredictions := predictions res,
                 isPlacePredictionsLoading := False,
                 lastResultFromCache := Some True,
                 lastCacheLayerName := Some (name next)\<rparr>)
       \<and> (\<forall>rd'. rd' v (world hp) = (Returns None, w1) \<longrightarrow>
            getPlacePredictions (pre @ layer\<lparr>read := Some rd'\<rparr> # post) obs v h =
            getPlacePredictions (pre @ layer # post) obs v h)"
proof -
  let ?h = "h\<lparr>isPlacePredictionsLoading := True\<rparr>"
  have over: "probeLayer obs v layer hp = (False, hq)"
    using assms by (simp add: probeLayer_throws)
  have w: "world hq = w1"
    using assms(5) by simp
  note facts = layer_passed_over [OF assms(1,2) over]
  have same: "getPlacePredictions (pre @ layer\<lparr>read := Some rd'\<rparr> # post) obs v h =
            getPlacePredictions (pre @ layer # post) obs v h"
    if "rd' v (world hp) = (Returns None, w1)" for rd'
  proof -
    have "probeLayers obs v (pre @ layer\<lparr>read := Some rd'\<rparr> # post) ?h =
          probeLayers obs v (pre @ layer # post) ?h"
      using assms that by (simp add: probeLayers_append probeLayer_throws probeLayer_absent)
    then show ?thesis by (simp add: getPlacePredictions_def)
  qed
  show ?thesis
    using facts(1) [of post] facts(2) [of post] facts(3) [of post] facts(4) facts(5) same
    unfolding w by blast
qed

theorem read_failure_is_miss_witness:
  "lastCacheLayerName (getPlacePredictions
        [stubLayer ''L1'' Throws (Returns ()), stubLayer ''L2'' (hitOf ''L2'' [paris]) (Returns ())]
        None ''paris'' startHook) = Some ''L2''
   \<and> placePredictions (getPlacePredictions
        [stubLayer ''L1'' Throws (Returns ()), stubLayer ''L2'' (hitOf ''L2'' [paris]) (Returns ())]
        None ''paris'' startHook) = [paris]
   \<and> calls (getPlacePredictions
        [stubLayer ''L1'' Throws (Returns ()), stubLayer ''L2'' (hitOf ''L2'' [paris]) (Returns ())]
        None ''paris'' startHook) = [LayerRead ''L1'' ''paris'', LayerRead ''L2'' ''paris'']
   \<and> calls (getPlacePredictions [stubLayer ''L1'' Throws (Returns ())] None ''paris'' startHook) =
       [LayerRead ''L1'' ''paris'', BaseGetPlacePredictions ''paris'']
   \<and> lastResultFromCache
       (getPlacePredictions [stubLayer ''L1'' Throws (Returns ())] None ''paris'' startHook) =
       Some False"
proof -
  let ?h = "startHook\<lparr>isPlacePredictionsLoading := True\<rparr>"
  let ?L1 = "stubLayer ''L1'' Throws (Returns ()) :: unit World CacheLayer"
  let ?L2 = "stubLayer ''L2'' (hitOf ''L2'' [paris]) (Returns ()) :: unit World CacheLayer"
  let ?hq = "?h\<lparr>calls := calls ?h @ [LayerRead (name ?L1) ''paris''], world := world ?h\<rparr>"
  have n: "normalizeInput ''paris'' \<noteq> []"
    by (simp add: normalizeInput_paris)
  have p: "probeLayers None ''paris'' [] ?h = (False, ?h)" by simp
  have r: "read ?L1 = Some (\<lambda>input w. (Throws, w))"
    by (simp add: stubLayer_def)
  have t: "(\<lambda>input w. (Throws :: CacheReadResult option outcome, w)) ''paris'' (world ?h)
             = (Throws, world ?h)"
    by simp
  note inst = read_failure_is_miss [OF n p r t refl, where post = "[]"]
  have last: "getPlacePredictions ([] @ [?L1]) None ''paris'' startHook =
            ?hq\<lparr>lastResultFromCache := Some False, lastCacheLayerName := None,
               lastInputRef := Some ''paris'',
               calls := calls ?hq @ [BaseGetPlacePredictions ''paris'']\<rparr>"
    using inst by blast
  have r2: "read ?L2 = Some (\<lambda>input w. (hitOf ''L2'' [paris], w))"
    by (simp add: stubLayer_def)
  have "read ?L2 = Some (\<lambda>input w. (hitOf ''L2'' [paris], w))
        \<and> (\<lambda>input w. (hitOf ''L2'' [paris], w)) ''paris'' (world ?h) =
            (Returns (Some \<lparr>predictions = [paris], fromLayer = ''L2''\<rparr>), world ?h)
        \<and> predictions \<lparr>predictions = [paris], fromLayer = ''L2''\<rparr> \<noteq> []
        \<and> (None :: unit World OnAfterCacheHit option) = None"
    by (simp add: stubLayer_def hitOf_def)
  with inst have nxt: "getPlacePredictions ([] @ ?L1 # ?L2 # []) None ''paris'' startHook =
              ?hq\<lparr>calls := calls ?hq @ [LayerRead (name ?L2) ''paris''],
                 world := world ?h,
                 placePredictions := predictions \<lparr>predictions = [paris], fromLayer = ''L2''\<rparr>,
                 isPlacePredictionsLoading := False,
                 lastResultFromCache := Some True,
                 lastCacheLayerName := Some (name ?L2)\<rparr>"
    by blast
  show ?thesis
    using last nxt by (simp add: stubLayer_def startHook_def initialHook_def)
qed

text \<open>
  C8: When the \<^verbatim>\<open>read\<close> of a layer returns a result with an empty prediction list,
  that turn of the loop is no hit and leaves the current predictions and the provenance
  as they were; \<^verbatim>\<open>getPlacePredictions\<close> goes on with the layers behind it, and when
  no layer is left or none hits, it calls the external service and the provenance is a
  miss, never that layer.
\<close>

theorem empty_result_is_miss:
  assumes "normalizeInput v \<noteq> []"
    and "probeLayers obs v pre (h\<lparr>isPlacePredictionsLoading := True\<rparr>) = (False, hp)"
    and "read layer = Some rd"
    and "rd v (world hp) = (Returns (Some res), w1)"
    and "predictions res = []"
    and "hq = hp\<lparr>calls := calls hp @ [LayerRead (name layer) v], world := w1\<rparr>"
  shows "probeLayer obs v layer hp = (False, hq)
       \<and> placePredictions hq = placePredictions hp
       \<and> lastResultFromCache hq = lastResultFromCache hp
       \<and> lastCacheLayerName hq = lastCacheLayerName hp
       \<and> probeLayers obs v (pre @ layer # post) (h\<lparr>isPlacePredictionsLoading := True\<rparr>) =
           probeLayers obs v post hq
       \<and> (\<forall>h'. probeLayers obs v post hq = (True, h') \<longrightarrow>
            getPlacePredictions (pre @ layer # post) obs v h = h')
       \<and> (\<forall>h'. probeLayers obs v post hq = (False, h') \<longrightarrow>
            getPlacePredictions (pre @ layer # post) obs v h =
              h'\<lparr>lastResultFromCache := Some False, lastCacheLayerName := None,
                 lastInputRef := Some v, calls := calls h' @ [BaseGetPlacePredictions v]\<rparr>)
       \<and> getPlacePredictions (pre @ [layer]) obs v h =
            hq\<lparr>lastResultFromCache := Some False, lastCacheLayerName := None,
               lastInputRef := Some v, calls := calls hq @ [BaseGetPlacePredictions v]\<rparr>
       \<and> (\<forall>next rest rd2 res2 w2.
            read next = Some rd2 \<and> rd2 v w1 = (Returns (Some res2), w2)
              \<and> predictions res2 \<noteq> [] \<and> obs = None \<longrightarrow>
            getPlacePredictions (pre @ layer # next # rest) obs v h =
              hq\<lparr>calls := calls hq @ [LayerRead (name next) v],
                 world := w2,
                 placePredictions := predictions res2,
                 isPlacePredictionsLoading := False,
                 lastResultFromCache := Some True,
                 lastCacheLayerName := Some (name next)\<rparr>)"
proof -
  have over: "probeLayer obs v layer hp = (False, hq)"
    using assms by (simp add: probeLayer_empty)
  have w: "world hq = w1"
    using assms(6) by simp
  have same: "placePredictions hq = placePredictions hp
       \<and> lastResultFromCache hq = lastResultFromCache hp
       \<and> lastCacheLayerName hq = lastCacheLayerName hp"
    using assms(6) by simp
  note facts = layer_passed_over [OF assms(1,2) over]
  show ?thesis
    using over same facts(1) [of post] facts(2) [of post] facts(3) [of post] facts(4) facts(5)
    unfolding w by blast
qed

theorem empty_result_is_miss_witness:
  "calls (getPlacePredictions
       [stubLayer ''L0'' (Returns None) (Returns ()), stubLayer ''L1'' (hitOf ''L1'' []) (Returns ())]
       None ''paris'' startHook)
     = [LayerRead ''L0'' ''paris'', LayerRead ''L1'' ''paris'', BaseGetPlacePredictions ''paris'']
   \<and> lastResultFromCache (getPlacePredictions
       [stubLayer ''L0'' (Returns None) (Returns ()), stubLayer ''L1'' (hitOf ''L1'' []) (Returns ())]
       None ''paris'' startHook) = Some False
   \<and> lastCacheLayerName (getPlacePredictions
       [stubLayer ''L0'' (Returns None) (Returns ()), stubLayer ''L1'' (hitOf ''L1'' []) (Returns ())]
       None ''paris'' startHook) = None"
proof -
  let ?h = "startHook\<lparr>isPlacePredictionsLoading := True\<rparr>"
  let ?L0 = "stubLayer ''L0'' (Returns None) (Returns ()) :: unit World CacheLayer"
  let ?L1 = "stubLayer ''L1'' (hitOf ''L1'' []) (Returns ()) :: unit World CacheLayer"
  let ?hp = "?h\<lparr>calls := [LayerRead ''L0'' ''paris'']\<rparr>"
  let ?hq = "?hp\<lparr>calls := calls ?hp @ [LayerRead (name ?L1) ''paris''], world := world ?hp\<rparr>"
  have n: "normalizeInput ''paris'' \<noteq> []"
    by (simp add: normalizeInput_paris)
  have p: "probeLayers None ''paris'' [?L0] ?h = (False, ?hp)"
    by (simp add: probeLayer_def stubLayer_def startHook_def initialHook_def)
  have r: "read ?L1 = Some (\<lambda>input w. (hitOf ''L1'' [], w))"
    by (simp add: stubLayer_def)
  have t: "(\<lambda>input w. (hitOf ''L1'' [], w)) ''paris'' (world ?hp)
             = (Returns (Some \<lparr>predictions = [], fromLayer = ''L1''\<rparr>), world ?hp)"
    by (simp add: hitOf_def)
  have e: "predictions \<lparr>predictions = [], fromLayer = ''L1''\<rparr> = []" by simp
  note inst = empty_result_is_miss [OF n p r t e refl, where post = "[]"]
  have "getPlacePredictions ([?L0] @ [?L1]) None ''paris'' startHook =
            ?hq\<lparr>lastResultFromCache := Some False, lastCacheLayerName := None,
               lastInputRef := Some ''paris'',
               calls := calls ?hq @ [BaseGetPlacePredictions ''paris'']\<rparr>"
    using inst by blast
  then show ?thesis
    by (simp add: stubLayer_def startHook_def initialHook_def)
qed


section \<open>Properties of the detail resolver\<close>

text \<open>
  C9: When the prediction is absent or has no (or an empty) \<^verbatim>\<open>place_id\<close>,
  \<^verbatim>\<open>selectPrediction\<close> returns no place, \<open>fromCache = False\<close> and no layer name, and
  leaves the whole state as it was: the store and its log of calls, the log of calls to
  the detail service, and the hook's own state.
\<close>

theorem select_without_place_id:
  assumes "\<forall>pr. p = Some pr \<longrightarrow> \<not> truthy (place_id pr)"
  shows "selectPrediction firebase p a =
           (\<lparr>place = None, fromCache = False, cacheLayerName = None\<rparr>, a)"
  using assms by (cases p) (simp_all add: selectPrediction_def noPlace_def)

theorem select_without_place_id_witness:
  "selectPrediction (Some exampleConfig) (Some \<lparr>place_id = None, description = ''Paris''\<rparr>)
     (initialAddress None (exampleWorld [] []))
   = (\<lparr>place = None, fromCache = False, cacheLayerName = None\<rparr>,
      initialAddress None (exampleWorld [] []))"
proof -
  have h: "\<forall>pr. Some \<lparr>place_id = None, description = ''Paris''\<rparr> = Some pr
             \<longrightarrow> \<not> truthy (place_id pr)"
    by auto
  show ?thesis
    by (rule select_without_place_id [OF h])
qed


text \<open>
  C6: When the built-in store is configured and the lookup of the prediction's
  \<^verbatim>\<open>place_id\<close> returns a record with a \<^verbatim>\<open>rawPlace\<close>, \<^verbatim>\<open>selectPrediction\<close>
  returns that payload with \<open>fromCache = True\<close> and the layer name \<open>firebase\<close>; it
  makes the one store lookup and no call to the detail service.
\<close>

theorem select_stored_detail:
  assumes "p = Some pr" and "place_id pr = Some pid" and "pid \<noteq> []"
    and "firebase = Some c" and "firestore c = Some fsh"
    and "getDoc (collectionPathOf c) pid (dbOf a) = (Returns (Some data), db')"
    and "rawPlace data = Some rp"
  shows "fst (selectPrediction firebase p a) =
           \<lparr>place = Some rp, fromCache = True, cacheLayerName = Some ''firebase''\<rparr>
       \<and> selectedPlace (snd (selectPrediction firebase p a)) = Some rp
       \<and> calls (service (snd (selectPrediction firebase p a))) = calls (service a)
       \<and> oplog (dbOf (snd (selectPrediction firebase p a))) =
           oplog (dbOf a) @ [GetDoc (collectionPathOf c) pid]"
proof -
  have db: "dbOf (a\<lparr>isSelecting := True\<rparr>) = dbOf a"
    by (simp add: dbOf_def)
  have run: "selectPrediction firebase p a =
      (\<lparr>place = Some rp, fromCache = True, cacheLayerName = Some ''firebase''\<rparr>,
       (withDb db' (a\<lparr>isSelecting := True\<rparr>))\<lparr>selectedPlace := Some rp, isSelecting := False\<rparr>)"
    using assms by (simp add: selectPrediction_def db)
  from assms(6) have "oplog db' = oplog (dbOf a) @ [GetDoc (collectionPathOf c) pid]"
    by (rule getDoc_oplog)
  with run show ?thesis
    by (simp add: withDb_def dbOf_def)
qed

theorem select_stored_detail_witness:
  "fst (selectPrediction (Some exampleConfig) (Some paris)
     (initialAddress (Some (\<lambda>i. Returns (OK, Some parisPlace)))
        (exampleWorld [((''maps_addresses'', ''ChIJparis''), emptyDoc\<lparr>rawPlace := Some parisPlace\<rparr>)] [])))
   = \<lparr>place = Some parisPlace, fromCache = True, cacheLayerName = Some ''firebase''\<rparr>"
proof -
  let ?a = "initialAddress (Some (\<lambda>i. Returns (OK, Some parisPlace)))
        (exampleWorld [((''maps_addresses'', ''ChIJparis''), emptyDoc\<lparr>rawPlace := Some parisPlace\<rparr>)] [])"
  let ?db = "(dbOf ?a)\<lparr>oplog := [GetDoc ''maps_addresses'' ''ChIJparis'']\<rparr>"
  have g: "getDoc (collectionPathOf exampleConfig) ''ChIJparis'' (dbOf ?a) =
             (Returns (Some (emptyDoc\<lparr>rawPlace := Some parisPlace\<rparr>)), ?db)"
    by (simp add: getDoc_def nextFault_def dbOf_def initialAddress_def initialHook_def
        exampleWorld_def exampleDb_def collectionPathOf_def exampleConfig_def
        DEFAULT_COLLECTION_PATH_def)
  have r: "rawPlace (emptyDoc\<lparr>rawPlace := Some parisPlace\<rparr>) = Some parisPlace" by simp
  show ?thesis
    using select_stored_detail [OF refl, of paris "''ChIJparis''" "Some exampleConfig" exampleConfig
        FirestoreHandle ?a _ ?db parisPlace] g r
    by (simp add: paris_def exampleConfig_def)
qed



text \<open>
  C4: After a successful external detail fetch, a failure of the write-back into the
  built-in store is swallowed, and the fetched payload is still what the caller gets. The
  \<^verbatim>\<open>await setDoc\<close> of step 3 stands inside the one \<^verbatim>\<open>try\<close> block of
  \<^verbatim>\<open>selectPrediction\<close>, whose \<^verbatim>\<open>catch\<close> returns no place. On a store whose lookup
  succeeds and whose write rejects, the call therefore returns no place, although the
  detail service was called, answered with status \<open>OK\<close>, and the payload has already been
  set as the selected place.
\<close>

theorem store_write_failure_loses_detail:
  "fst (selectPrediction (Some exampleConfig) (Some paris) writeFails) =
     \<lparr>place = None, fromCache = False, cacheLayerName = None\<rparr>
   \<and> selectedPlace (snd (selectPrediction (Some exampleConfig) (Some paris) writeFails)) =
     Some parisPlace
   \<and> calls (service (snd (selectPrediction (Some exampleConfig) (Some paris) writeFails))) =
     [GetDetails ''ChIJparis'']
   \<and> oplog (dbOf (snd (selectPrediction (Some exampleConfig) (Some paris) writeFails))) =
     [GetDoc ''maps_addresses'' ''ChIJparis'',
      SetDoc ''maps_addresses'' ''ChIJparis'' (detailDoc parisPlace 7)]
   \<and> docs (dbOf (snd (selectPrediction (Some exampleConfig) (Some paris) writeFails))) = []"
  by (simp add: selectPrediction_def fetchDetails_def persistDetails_def Let_def paris_def
      exampleConfig_def collectionPathOf_def DEFAULT_COLLECTION_PATH_def getDoc_def setDoc_def
      nextFault_def dbOf_def withDb_def logCall_def initialAddress_def initialHook_def
      exampleWorld_def exampleDb_def detailsOk_def writeFails_def noPlace_def)

end
